theory Spec2Isabelle
  imports Complex_Main "HOL-Library.AList" "HOL-Library.Sublist"
begin

section \<open>The Pioneer AVR integration: entry lifecycle\<close>

text \<open>
  A model of \<^verbatim>\<open>custom_components/pioneer_async/__init__.py\<close>: the four
  lifecycle hooks \<^verbatim>\<open>async_setup\<close>, \<^verbatim>\<open>async_setup_entry\<close>,
  \<^verbatim>\<open>_update_listener\<close> and \<^verbatim>\<open>async_unload_entry\<close>. Each hook is a
  function of the host state and the config entry that returns what the hook returns or
  raises, the host state afterwards, and the calls it made on the device client, the host
  and the logger, in the order they were made. The hooks are coroutines whose awaits are
  sequential; a run is modelled as that sequence.
\<close>

subsection \<open>Python values\<close>

text \<open>
  The values a config entry holds are the values of the host's JSON storage. A dictionary
  is an association list in insertion order, read with \<^const>\<open>map_of\<close> and written with
  \<^const>\<open>AList.update\<close>, which replaces the value of a key in place and appends a new
  key at the end, as a Python \<^verbatim>\<open>dict\<close> does. A float is given by its exact value.
\<close>

datatype pyval =
    PyNone
  | PyBool bool
  | PyInt int
  | PyFloat rat
  | PyStr string
  | PyList "pyval list"
  | PyDict "(string \<times> pyval) list"

type_synonym 'v dict = "(string \<times> 'v) list"

text \<open>The truth value of \<^verbatim>\<open>if sources:\<close>.\<close>

fun truthy :: "pyval \<Rightarrow> bool" where
  "truthy PyNone = False"
| "truthy (PyBool b) = b"
| "truthy (PyInt n) = (n \<noteq> 0)"
| "truthy (PyFloat r) = (r \<noteq> 0)"
| "truthy (PyStr s) = (s \<noteq> [])"
| "truthy (PyList xs) = (xs \<noteq> [])"
| "truthy (PyDict d) = (d \<noteq> [])"

subsection \<open>Exceptions\<close>

text \<open>
  An exception stands for its class and the subclasses of it (a \<^verbatim>\<open>JSONDecodeError\<close>
  is a \<open>ValueError\<close>). \<open>OtherException\<close> is any class that is none of the others.
  \<open>ConfigEntryNotReady e\<close> is the host's "not ready" condition raised
  \<^verbatim>\<open>from e\<close>.
\<close>

datatype exn =
    TimeoutError
  | ValueError
  | AttributeError
  | KeyError string
  | TypeError
  | OtherException string
  | ConfigEntryNotReady exn

text \<open>\<^verbatim>\<open>except (asyncio.TimeoutError, ValueError, AttributeError)\<close>\<close>

fun caught_not_ready :: "exn \<Rightarrow> bool" where
  "caught_not_ready TimeoutError = True"
| "caught_not_ready ValueError = True"
| "caught_not_ready AttributeError = True"
| "caught_not_ready _ = False"

text \<open>\<^verbatim>\<open>d[k]\<close> raises \<open>KeyError\<close> on a missing key.\<close>

definition getitem :: "'v dict \<Rightarrow> string \<Rightarrow> exn + 'v" where
  "getitem d k = (case map_of d k of None \<Rightarrow> Inl (KeyError k) | Some v \<Rightarrow> Inr v)"

text \<open>\<^verbatim>\<open>{**a, **b}\<close>: the items of \<open>b\<close> are written over \<open>a\<close>, in order.\<close>

definition dict_merge :: "'v dict \<Rightarrow> 'v dict \<Rightarrow> 'v dict" where
  "dict_merge a b = fold (\<lambda>(k, v). AList.update k v) b a"

text \<open>Sequencing of steps that may raise.\<close>

definition bind_exn :: "exn + 'a \<Rightarrow> ('a \<Rightarrow> exn + 'b) \<Rightarrow> exn + 'b" where
  "bind_exn r f = (case r of Inl e \<Rightarrow> Inl e | Inr x \<Rightarrow> f x)"

subsection \<open>Constants of the integration and of the host\<close>

text \<open>
  \<^verbatim>\<open>const.py\<close> and \<^verbatim>\<open>aiopioneer.param\<close> are not part of the sources at
  hand; the names imported from them are parameters of the model.
\<close>

record integration_consts =
  DOMAIN :: string
  PLATFORMS :: "string list"
  PIONEER_OPTIONS_UPDATE :: string
  OPTIONS_DEFAULTS :: "pyval dict"
  CONF_SOURCES :: string
  PARAMS_ALL :: "string list"

text \<open>The keys of \<^verbatim>\<open>homeassistant.const\<close>.\<close>

definition CONF_HOST :: string where "CONF_HOST = ''host''"
definition CONF_PORT :: string where "CONF_PORT = ''port''"
definition CONF_NAME :: string where "CONF_NAME = ''name''"
definition CONF_TIMEOUT :: string where "CONF_TIMEOUT = ''timeout''"
definition CONF_SCAN_INTERVAL :: string where "CONF_SCAN_INTERVAL = ''scan_interval''"

subsection \<open>Config entry, device client, host state\<close>

record config_entry =
  entry_id :: string
  unique_id :: string
  data :: "pyval dict"
  options :: "pyval dict"

text \<open>The client object, known by the arguments of its constructor.\<close>

record pioneer_avr =
  avr_host :: pyval
  avr_port :: pyval
  avr_timeout :: pyval
  avr_scan_interval :: pyval
  avr_params :: "pyval dict"

text \<open>\<^verbatim>\<open>hass.data\<close>: per domain, the clients by entry id.\<close>

record hass =
  hass_data :: "pioneer_avr dict dict"

subsection \<open>The calls a hook makes\<close>

datatype loglevel = DEBUG | ERROR

datatype event =
    Log loglevel string "pyval list"
  | PioneerAVR_init pyval pyval pyval pyval "pyval dict"
  | Connect
  | QueryDeviceInfo
  | QueryZones
  | SetSourceDict pyval
  | BuildSourceDict
  | Shutdown pioneer_avr
  | GetRegistry
  | GetOrCreateDevice string "(string \<times> pyval) list" "(string \<times> string) list" string pyval pyval pyval
  | ForwardEntrySetup string string
  | AddUpdateListener string
  | DispatcherSend string "pyval dict"
  | ForwardEntryUnload string string

text \<open>
  What the world outside the integration does during one run of a hook: what
  \<^verbatim>\<open>json.loads\<close> returns or raises on a string, whether a call on the device client
  raises (\<open>None\<close>: it returns), the attributes the client reports, and the result of
  each platform's unload. The calls on the host (device registry, task creation, listener
  registration, dispatcher, platform unload) return; a platform unload reports failure by
  returning \<open>False\<close>.
\<close>

record world =
  json_loads :: "string \<Rightarrow> exn + pyval"
  avr_init :: "exn option"
  connect :: "exn option"
  query_device_info :: "exn option"
  query_zones :: "exn option"
  set_source_dict :: "exn option"
  build_source_dict :: "exn option"
  shutdown :: "exn option"
  model :: pyval
  software_version :: pyval
  mac_addr :: pyval
  forward_entry_unload :: "string \<Rightarrow> bool"

text \<open>The outcome of a hook: result or exception, host state, calls made.\<close>

record 'a run =
  result :: "exn + 'a"
  state :: hass
  trace :: "event list"

subsection \<open>\<^verbatim>\<open>async_setup\<close>\<close>

text \<open>\<^verbatim>\<open>hass.data.setdefault(DOMAIN, {})\<close>\<close>

definition setdefault :: "'v dict \<Rightarrow> string \<Rightarrow> 'v \<Rightarrow> 'v dict" where
  "setdefault d k v = (case map_of d k of None \<Rightarrow> AList.update k v d | Some _ \<Rightarrow> d)"

definition async_setup :: "integration_consts \<Rightarrow> hass \<Rightarrow> bool run" where
  "async_setup C h =
     \<lparr> result = Inr True,
       state = h\<lparr>hass_data := setdefault (hass_data h) (DOMAIN C) []\<rparr>,
       trace = [Log DEBUG ''>> async_setup()'' []] \<rparr>"

subsection \<open>\<^verbatim>\<open>async_setup_entry\<close>\<close>

text \<open>The local variables computed from the entry before the client is created.\<close>

record setup_locals =
  l_host :: pyval
  l_port :: pyval
  l_name :: pyval
  l_scan_interval :: pyval
  l_timeout :: pyval
  l_sources_option :: pyval
  l_params :: "pyval dict"

text \<open>\<^verbatim>\<open>entry_options = entry.options if entry.options else {}\<close>\<close>

definition entry_options :: "config_entry \<Rightarrow> pyval dict" where
  "entry_options entry = (if options entry \<noteq> [] then options entry else [])"

text \<open>\<^verbatim>\<open>options = {**OPTIONS_DEFAULTS, **entry_options}\<close>\<close>

definition merged_options :: "integration_consts \<Rightarrow> config_entry \<Rightarrow> pyval dict" where
  "merged_options C entry = dict_merge (OPTIONS_DEFAULTS C) (entry_options entry)"

text \<open>\<^verbatim>\<open>{k: entry_options[k] for k in PARAMS_ALL if k in entry_options}\<close>\<close>

definition params_of :: "string list \<Rightarrow> pyval dict \<Rightarrow> pyval dict" where
  "params_of ks eo =
     fold (\<lambda>k acc. case map_of eo k of None \<Rightarrow> acc | Some v \<Rightarrow> AList.update k v acc) ks []"

text \<open>
  The subscripts of lines 57 to 66, in order; each raises \<open>KeyError\<close> on a missing key.
  A missing sources key raises inside the \<^verbatim>\<open>try\<close>, and again in the handler that
  logs the option, from where it leaves the hook.
\<close>

definition read_entry :: "integration_consts \<Rightarrow> config_entry \<Rightarrow> exn + setup_locals" where
  "read_entry C entry =
     bind_exn (getitem (data entry) CONF_HOST) (\<lambda>host.
     bind_exn (getitem (data entry) CONF_PORT) (\<lambda>port.
     bind_exn (getitem (data entry) CONF_NAME) (\<lambda>name.
     bind_exn (getitem (merged_options C entry) CONF_SCAN_INTERVAL) (\<lambda>scan_interval.
     bind_exn (getitem (merged_options C entry) CONF_TIMEOUT) (\<lambda>timeout.
     bind_exn (getitem (merged_options C entry) (CONF_SOURCES C)) (\<lambda>src.
       Inr \<lparr> l_host = host, l_port = port, l_name = name,
             l_scan_interval = scan_interval, l_timeout = timeout,
             l_sources_option = src,
             l_params = params_of (PARAMS_ALL C) (entry_options entry) \<rparr>))))))"

text \<open>\<^verbatim>\<open>json.loads\<close> of an option value: only a string is decoded.\<close>

definition py_json_loads :: "world \<Rightarrow> pyval \<Rightarrow> exn + pyval" where
  "py_json_loads W v = (case v of PyStr s \<Rightarrow> json_loads W s | _ \<Rightarrow> Inl TypeError)"

text \<open>
  Lines 65 to 69: the bare \<^verbatim>\<open>except\<close> takes every exception of the decoder,
  logs the option and leaves the empty mapping.
\<close>

definition decode_sources :: "world \<Rightarrow> pyval \<Rightarrow> pyval \<times> event list" where
  "decode_sources W v =
     (case py_json_loads W v of
        Inr s \<Rightarrow> (s, [])
      | Inl _ \<Rightarrow> (PyDict [], [Log ERROR ''invalid sources specified: %s'' [v]]))"

text \<open>
  A sequence of calls, each with what it raises: the calls are made in order up to and
  including the first that raises.
\<close>

fun run_calls :: "(event \<times> exn option) list \<Rightarrow> exn option \<times> event list" where
  "run_calls [] = (None, [])"
| "run_calls ((ev, Some e) # cs) = (Some e, [ev])"
| "run_calls ((ev, None) # cs) = (case run_calls cs of (r, t) \<Rightarrow> (r, ev # t))"

text \<open>Lines 73 to 86, the body of the second \<^verbatim>\<open>try\<close>.\<close>

definition init_calls :: "world \<Rightarrow> setup_locals \<Rightarrow> pyval \<Rightarrow> (event \<times> exn option) list" where
  "init_calls W l sources =
     [ (PioneerAVR_init (l_host l) (l_port l) (l_timeout l) (l_scan_interval l) (l_params l),
        avr_init W),
       (Connect, connect W),
       (QueryDeviceInfo, query_device_info W),
       (QueryZones, query_zones W),
       (if truthy sources then (SetSourceDict sources, set_source_dict W)
        else (BuildSourceDict, build_source_dict W)) ]"

definition new_client :: "setup_locals \<Rightarrow> pioneer_avr" where
  "new_client l =
     \<lparr> avr_host = l_host l, avr_port = l_port l, avr_timeout = l_timeout l,
       avr_scan_interval = l_scan_interval l, avr_params = l_params l \<rparr>"

text \<open>
  Lines 90 to 113, after the client is initialised: the client is stored under the entry
  id (\<open>KeyError\<close> when \<^verbatim>\<open>hass.data\<close> has no dictionary for the domain), the device is
  registered, a task is created for each platform's setup, the update listener is added.
\<close>

definition register_calls ::
  "integration_consts \<Rightarrow> world \<Rightarrow> config_entry \<Rightarrow> setup_locals \<Rightarrow> event list" where
  "register_calls C W entry l =
     [ GetRegistry,
       GetOrCreateDevice (entry_id entry) [(''mac'', mac_addr W)]
         [(DOMAIN C, unique_id entry)] ''Pioneer'' (l_name l) (model W) (software_version W) ]
     @ map (ForwardEntrySetup (entry_id entry)) (PLATFORMS C)
     @ [AddUpdateListener (entry_id entry)]"

definition async_setup_entry ::
  "integration_consts \<Rightarrow> world \<Rightarrow> hass \<Rightarrow> config_entry \<Rightarrow> bool run" where
  "async_setup_entry C W h entry =
     (let t0 = [Log DEBUG ''>> async_setup_entry(entry_id=%s, data=%s, options=%s)''
                  [PyStr (entry_id entry), PyDict (data entry), PyDict (options entry)]]
      in case read_entry C entry of
        Inl e \<Rightarrow> \<lparr> result = Inl e, state = h, trace = t0 \<rparr>
      | Inr l \<Rightarrow>
         (case decode_sources W (l_sources_option l) of (sources, t1) \<Rightarrow>
          (case run_calls (init_calls W l sources) of
             (Some e, t2) \<Rightarrow>
               \<lparr> result = Inl (if caught_not_ready e then ConfigEntryNotReady e else e),
                 state = h, trace = t0 @ t1 @ t2 \<rparr>
           | (None, t2) \<Rightarrow>
              (case getitem (hass_data h) (DOMAIN C) of
                 Inl e \<Rightarrow> \<lparr> result = Inl e, state = h, trace = t0 @ t1 @ t2 \<rparr>
               | Inr clients \<Rightarrow>
                  \<lparr> result = Inr True,
                    state = h\<lparr>hass_data :=
                      AList.update (DOMAIN C)
                        (AList.update (entry_id entry) (new_client l) clients) (hass_data h)\<rparr>,
                    trace = t0 @ t1 @ t2 @ register_calls C W entry l \<rparr>))))"

subsection \<open>\<^verbatim>\<open>_update_listener\<close>\<close>

definition update_topic :: "integration_consts \<Rightarrow> config_entry \<Rightarrow> string" where
  "update_topic C entry = PIONEER_OPTIONS_UPDATE C @ ''-'' @ unique_id entry"

definition update_listener :: "integration_consts \<Rightarrow> hass \<Rightarrow> config_entry \<Rightarrow> unit run" where
  "update_listener C h entry =
     \<lparr> result = Inr (), state = h,
       trace = [DispatcherSend (update_topic C entry) (options entry)] \<rparr>"

subsection \<open>\<^verbatim>\<open>async_unload_entry\<close>\<close>

text \<open>
  The platform unloads are gathered; \<^verbatim>\<open>all\<close> of their results is the conjunction.
  The client is then looked up (\<open>KeyError\<close> when none is stored), shut down, and popped
  from the dictionary of the domain when every unload succeeded.
\<close>

definition async_unload_entry ::
  "integration_consts \<Rightarrow> world \<Rightarrow> hass \<Rightarrow> config_entry \<Rightarrow> bool run" where
  "async_unload_entry C W h entry =
     (let t0 = Log DEBUG ''>> async_unload_entry()'' []
                # map (ForwardEntryUnload (entry_id entry)) (PLATFORMS C);
          unload_ok = list_all (forward_entry_unload W) (PLATFORMS C)
      in case bind_exn (getitem (hass_data h) (DOMAIN C))
                (\<lambda>clients. bind_exn (getitem clients (entry_id entry))
                   (\<lambda>pioneer. Inr (clients, pioneer))) of
        Inl e \<Rightarrow> \<lparr> result = Inl e, state = h, trace = t0 \<rparr>
      | Inr (clients, pioneer) \<Rightarrow>
         (case shutdown W of
            Some e \<Rightarrow> \<lparr> result = Inl e, state = h, trace = t0 @ [Shutdown pioneer] \<rparr>
          | None \<Rightarrow>
             \<lparr> result = Inr unload_ok,
               state = (if unload_ok
                        then h\<lparr>hass_data :=
                               AList.update (DOMAIN C)
                                 (AList.delete (entry_id entry) clients) (hass_data h)\<rparr>
                        else h),
               trace = t0 @ [Shutdown pioneer] \<rparr>))"

subsection \<open>Reading a run\<close>

text \<open>The client stored for an entry, if any.\<close>

definition stored_client :: "integration_consts \<Rightarrow> hass \<Rightarrow> config_entry \<Rightarrow> pioneer_avr option" where
  "stored_client C h entry =
     (case map_of (hass_data h) (DOMAIN C) of
        None \<Rightarrow> None
      | Some clients \<Rightarrow> map_of clients (entry_id entry))"

text \<open>The calls on the device client made while it is initialised.\<close>

fun init_call :: "event \<Rightarrow> bool" where
  "init_call (PioneerAVR_init _ _ _ _ _) = True"
| "init_call Connect = True"
| "init_call QueryDeviceInfo = True"
| "init_call QueryZones = True"
| "init_call (SetSourceDict _) = True"
| "init_call BuildSourceDict = True"
| "init_call _ = False"

text \<open>The calls on the host that publish the entry: registry, platforms, listener.\<close>

fun publish_call :: "event \<Rightarrow> bool" where
  "publish_call GetRegistry = True"
| "publish_call (GetOrCreateDevice _ _ _ _ _ _ _) = True"
| "publish_call (ForwardEntrySetup _ _) = True"
| "publish_call (AddUpdateListener _) = True"
| "publish_call _ = False"

fun is_set_source_dict :: "event \<Rightarrow> bool" where
  "is_set_source_dict (SetSourceDict _) = True"
| "is_set_source_dict _ = False"

subsection \<open>An installation\<close>

text \<open>
  Constants, a receiver and entries on which the theorems below are instantiated. The
  decoder has the values of \<^verbatim>\<open>json.loads\<close> on the three strings that these entries
  hold as sources: the empty object, an object with one source, and an opening brace
  alone, which is no JSON. The runs below decode no other string.
\<close>

definition example_consts :: integration_consts where
  "example_consts =
     \<lparr> DOMAIN = ''pioneer_async'',
       PLATFORMS = [''media_player'', ''sensor''],
       PIONEER_OPTIONS_UPDATE = ''pioneer_options_update'',
       OPTIONS_DEFAULTS =
         [(''scan_interval'', PyInt 60), (''timeout'', PyInt 2), (''sources'', PyStr ''{}'')],
       CONF_SOURCES = ''sources'',
       PARAMS_ALL = [''ignored_zones'', ''command_delay''] \<rparr>"

definition json_one_source :: string where
  \<open>json_one_source = ''{"CD": "01"}''\<close>

definition example_json_loads :: "string \<Rightarrow> exn + pyval" where
  "example_json_loads s =
     (if s = ''{}'' then Inr (PyDict [])
      else if s = json_one_source then Inr (PyDict [(''CD'', PyStr ''01'')])
      else Inl ValueError)"

definition example_world :: world where
  "example_world =
     \<lparr> json_loads = example_json_loads,
       avr_init = None, connect = None, query_device_info = None, query_zones = None,
       set_source_dict = None, build_source_dict = None, shutdown = None,
       model = PyStr ''VSX-930'', software_version = PyStr ''1.0'',
       mac_addr = PyStr ''00:11:22:33:44:55'',
       forward_entry_unload = (\<lambda>_. True) \<rparr>"

text \<open>The receiver does not answer: \<^verbatim>\<open>connect\<close> times out.\<close>

definition world_connect_timeout :: world where
  "world_connect_timeout = example_world\<lparr>connect := Some TimeoutError\<rparr>"

text \<open>The connection breaks with an error of the operating system.\<close>

definition world_connect_oserror :: world where
  "world_connect_oserror = example_world\<lparr>connect := Some (OtherException ''OSError'')\<rparr>"

text \<open>The second platform refuses to unload.\<close>

definition world_unload_fails :: world where
  "world_unload_fails = example_world\<lparr>forward_entry_unload := (\<lambda>p. p \<noteq> ''sensor'')\<rparr>"

text \<open>The client's shutdown raises.\<close>

definition world_shutdown_raises :: world where
  "world_shutdown_raises = example_world\<lparr>shutdown := Some (OtherException ''OSError'')\<rparr>"

definition example_data :: "pyval dict" where
  "example_data =
     [(''host'', PyStr ''avr.local''), (''port'', PyInt 8102), (''name'', PyStr ''Receiver'')]"

text \<open>An entry with a source mapping and one protocol parameter among its options.\<close>

definition entry_with_sources :: config_entry where
  "entry_with_sources =
     \<lparr> entry_id = ''e1'', unique_id = ''avr-1'', data = example_data,
       options = [(''sources'', PyStr json_one_source), (''command_delay'', PyInt 1),
                  (''timeout'', PyInt 5)] \<rparr>"

text \<open>The local variables that setup computes from it.\<close>

definition locals_with_sources :: setup_locals where
  "locals_with_sources =
     \<lparr> l_host = PyStr ''avr.local'', l_port = PyInt 8102, l_name = PyStr ''Receiver'',
       l_scan_interval = PyInt 60, l_timeout = PyInt 5,
       l_sources_option = PyStr json_one_source,
       l_params = [(''command_delay'', PyInt 1)] \<rparr>"

text \<open>An entry without options: its sources are the default, the empty object.\<close>

definition entry_plain :: config_entry where
  "entry_plain =
     \<lparr> entry_id = ''e2'', unique_id = ''avr-2'', data = example_data, options = [] \<rparr>"

text \<open>The local variables of its setup, and of the setup of the next entry.\<close>

definition locals_plain :: setup_locals where
  "locals_plain =
     \<lparr> l_host = PyStr ''avr.local'', l_port = PyInt 8102, l_name = PyStr ''Receiver'',
       l_scan_interval = PyInt 60, l_timeout = PyInt 2, l_sources_option = PyStr ''{}'',
       l_params = [] \<rparr>"

text \<open>An entry whose sources option is the empty object.\<close>

definition entry_empty_sources :: config_entry where
  "entry_empty_sources =
     \<lparr> entry_id = ''e4'', unique_id = ''avr-4'', data = example_data,
       options = [(''sources'', PyStr ''{}'')] \<rparr>"

text \<open>An entry whose sources option is no JSON.\<close>

definition entry_malformed :: config_entry where
  "entry_malformed =
     \<lparr> entry_id = ''e3'', unique_id = ''avr-3'', data = example_data,
       options = [(''sources'', PyStr ''{'')] \<rparr>"

definition locals_malformed :: setup_locals where
  "locals_malformed =
     \<lparr> l_host = PyStr ''avr.local'', l_port = PyInt 8102, l_name = PyStr ''Receiver'',
       l_scan_interval = PyInt 60, l_timeout = PyInt 2, l_sources_option = PyStr ''{'',
       l_params = [] \<rparr>"

text \<open>The host state after \<^verbatim>\<open>async_setup\<close>, and after the setup of an entry.\<close>

definition example_hass :: hass where
  "example_hass = state (async_setup example_consts \<lparr> hass_data = [] \<rparr>)"

definition hass_with :: "config_entry \<Rightarrow> hass" where
  "hass_with entry = state (async_setup_entry example_consts example_world example_hass entry)"

text \<open>The client that the setup of \<open>entry_plain\<close> stores.\<close>

definition client_plain :: pioneer_avr where
  "client_plain =
     \<lparr> avr_host = PyStr ''avr.local'', avr_port = PyInt 8102, avr_timeout = PyInt 2,
       avr_scan_interval = PyInt 60, avr_params = [] \<rparr>"

section \<open>Facts about the model\<close>

lemmas model_defs =
  async_setup_entry_def async_unload_entry_def async_setup_def update_listener_def
  update_topic_def read_entry_def decode_sources_def py_json_loads_def init_calls_def
  register_calls_def new_client_def merged_options_def entry_options_def params_of_def
  dict_merge_def getitem_def bind_exn_def setdefault_def stored_client_def
  CONF_HOST_def CONF_PORT_def CONF_NAME_def CONF_TIMEOUT_def CONF_SCAN_INTERVAL_def

lemmas example_defs =
  example_consts_def example_json_loads_def example_world_def example_data_def
  entry_with_sources_def entry_plain_def entry_malformed_def entry_empty_sources_def
  example_hass_def hass_with_def client_plain_def json_one_source_def
  locals_with_sources_def locals_plain_def locals_malformed_def

lemmas world_defs =
  world_connect_timeout_def world_connect_oserror_def world_unload_fails_def
  world_shutdown_raises_def

subsection \<open>Dictionaries\<close>

lemma map_add_upd_left_fresh:
  "m2 k = None \<Longrightarrow> m1(k \<mapsto> v) ++ m2 = m1 ++ m2(k \<mapsto> v)"
  by (rule ext) (simp add: map_add_def split: option.splits)

lemma map_of_dict_merge:
  "distinct (map fst b) \<Longrightarrow> map_of (dict_merge a b) = map_of a ++ map_of b"
  unfolding dict_merge_def
proof (induction b arbitrary: a)
  case Nil
  then show ?case by simp
next
  case (Cons x b)
  obtain k v where x: "x = (k, v)" by (cases x)
  from Cons.prems x have k: "k \<notin> fst ` set b" and d: "distinct (map fst b)" by auto
  have none: "map_of b k = None" using k by (simp add: map_of_eq_None_iff)
  have "map_of (fold (\<lambda>(k, v). AList.update k v) (x # b) a)
        = map_of (AList.update k v a) ++ map_of b"
    using Cons.IH[OF d, of "AList.update k v a"] x by simp
  also have "\<dots> = (map_of a)(k \<mapsto> v) ++ map_of b"
    by (simp only: update_conv')
  also have "\<dots> = map_of a ++ (map_of b)(k \<mapsto> v)"
    using none by (simp add: map_add_upd_left_fresh[of "map_of b" k "map_of a" v])
  also have "\<dots> = map_of a ++ map_of (x # b)"
    using x by simp
  finally show ?case .
qed

lemma restrict_map_insert_none:
  "m k = None \<Longrightarrow> m |` insert k A = m |` A"
  by (rule ext) (simp add: restrict_map_def)

lemma map_add_restrict_insert:
  "m k = Some v \<Longrightarrow> a(k \<mapsto> v) ++ (m |` A) = a ++ (m |` insert k A)"
  by (rule ext) (simp add: restrict_map_def map_add_def split: option.splits)

lemma map_of_params_fold:
  "map_of (fold (\<lambda>k acc. case map_of eo k of None \<Rightarrow> acc | Some v \<Rightarrow> AList.update k v acc) ks acc)
     = map_of acc ++ (map_of eo |` set ks)"
proof (induction ks arbitrary: acc)
  case Nil
  then show ?case by simp
next
  case (Cons k ks)
  show ?case
  proof (cases "map_of eo k")
    case None
    then show ?thesis
      using Cons.IH[of acc] by (simp add: restrict_map_insert_none)
  next
    case (Some v)
    have "map_of (fold (\<lambda>k acc. case map_of eo k of None \<Rightarrow> acc | Some v \<Rightarrow> AList.update k v acc) (k # ks) acc)
          = map_of (AList.update k v acc) ++ (map_of eo |` set ks)"
      using Some Cons.IH[of "AList.update k v acc"] by simp
    also have "\<dots> = (map_of acc)(k \<mapsto> v) ++ (map_of eo |` set ks)"
      by (simp only: update_conv')
    also have "\<dots> = map_of acc ++ (map_of eo |` insert k (set ks))"
      using Some by (simp add: map_add_restrict_insert[of "map_of eo" k v "map_of acc" "set ks"])
    finally show ?thesis by simp
  qed
qed

lemma map_of_params_of: "map_of (params_of ks eo) = map_of eo |` set ks"
  unfolding params_of_def by (simp add: map_of_params_fold)

lemma entry_options_eq: "entry_options entry = options entry"
  by (simp add: entry_options_def)

lemma map_of_merged_options:
  "distinct (map fst (options entry)) \<Longrightarrow>
     map_of (merged_options C entry) = map_of (OPTIONS_DEFAULTS C) ++ map_of (options entry)"
  by (simp add: merged_options_def entry_options_eq map_of_dict_merge)

lemma read_entry_Inr:
  assumes "read_entry C entry = Inr l"
  shows "map_of (data entry) CONF_HOST = Some (l_host l)"
    and "map_of (data entry) CONF_PORT = Some (l_port l)"
    and "map_of (data entry) CONF_NAME = Some (l_name l)"
    and "map_of (merged_options C entry) CONF_SCAN_INTERVAL = Some (l_scan_interval l)"
    and "map_of (merged_options C entry) CONF_TIMEOUT = Some (l_timeout l)"
    and "map_of (merged_options C entry) (CONF_SOURCES C) = Some (l_sources_option l)"
    and "l_params l = params_of (PARAMS_ALL C) (options entry)"
  using assms
  by (auto simp: read_entry_def bind_exn_def getitem_def entry_options_eq
        split: option.splits sum.splits)

subsection \<open>Sequences of calls\<close>

lemma run_calls_prefix: "prefix (snd (run_calls cs)) (map fst cs)"
  by (induction cs rule: run_calls.induct) (auto split: prod.splits)

lemma run_calls_subset:
  assumes "run_calls cs = (r, t)"
  shows "set t \<subseteq> fst ` set cs"
proof -
  have "prefix t (map fst cs)"
    using run_calls_prefix[of cs] assms by simp
  then have "set t \<subseteq> set (map fst cs)"
    by (rule set_mono_prefix)
  then show ?thesis by simp
qed

lemma init_calls_events: "ev \<in> fst ` set (init_calls W l s) \<Longrightarrow> init_call ev"
  by (auto simp: init_calls_def split: if_splits)

lemma run_init_calls_events:
  "run_calls (init_calls W l s) = (r, t) \<Longrightarrow> ev \<in> set t \<Longrightarrow> init_call ev"
  using run_calls_subset init_calls_events by blast

lemma decode_sources_events:
  "decode_sources W v = (s, t) \<Longrightarrow> ev \<in> set t \<Longrightarrow> \<exists>a b c. ev = Log a b c"
  by (auto simp: decode_sources_def split: sum.splits)

lemma init_call_not_publish: "init_call ev \<Longrightarrow> \<not> publish_call ev"
  by (cases ev) auto

lemma run_init_calls_not_publish:
  "run_calls (init_calls W l s) = (r, t) \<Longrightarrow> ev \<in> set t \<Longrightarrow> \<not> publish_call ev"
  using run_init_calls_events init_call_not_publish by blast

lemma decode_sources_not_publish:
  "decode_sources W v = (s, t) \<Longrightarrow> ev \<in> set t \<Longrightarrow> \<not> publish_call ev"
  by (auto dest: decode_sources_events)

lemma count_forward_unload_shutdown:
  "count_list (map (ForwardEntryUnload i) ps) (Shutdown p) = 0"
  by (induction ps) auto

lemma stored_client_after_pop:
  "map_of (hass_data h) d = Some clients \<Longrightarrow>
   stored_client C (h\<lparr>hass_data := AList.update (DOMAIN C) (AList.delete (entry_id entry) clients) (hass_data h)\<rparr>) entry = None"
  by (simp add: stored_client_def update_conv' delete_conv')

subsection \<open>The device calls of a setup run\<close>

lemma count_forward_setup_init:
  "init_call ev \<Longrightarrow> count_list (map (ForwardEntrySetup i) ps) ev = 0"
  by (induction ps) auto

lemma filter_init_forward_setup:
  "filter init_call (map (ForwardEntrySetup i) ps) = []"
  by (induction ps) auto

lemma filter_init_register_calls: "filter init_call (register_calls C W entry l) = []"
  by (simp add: register_calls_def filter_init_forward_setup)

lemma filter_init_decode:
  "decode_sources W v = (s, t) \<Longrightarrow> filter init_call t = []"
  by (auto simp: decode_sources_def split: sum.splits)

lemma filter_init_run_calls:
  "run_calls (init_calls W l s) = (r, t) \<Longrightarrow> filter init_call t = t"
  using run_init_calls_events[of W l s r t] by (simp add: filter_id_conv)

lemma setup_init_trace:
  assumes "read_entry C entry = Inr l"
  shows "filter init_call (trace (async_setup_entry C W h entry))
         = snd (run_calls (init_calls W l (fst (decode_sources W (l_sources_option l)))))"
proof -
  obtain s t1 where d: "decode_sources W (l_sources_option l) = (s, t1)"
    by (cases "decode_sources W (l_sources_option l)")
  obtain r t2 where c: "run_calls (init_calls W l s) = (r, t2)"
    by (cases "run_calls (init_calls W l s)")
  show ?thesis
    using assms d c filter_init_decode[OF d] filter_init_run_calls[OF c]
    by (auto simp: async_setup_entry_def Let_def filter_init_register_calls
          split: option.splits sum.splits)
qed

lemma run_calls_single: "run_calls [(ev, r)] = (r, [ev])"
  by (cases r) auto

lemma run_init_calls_exact:
  "snd (run_calls (init_calls W l s)) =
     take (Suc (length (takeWhile (\<lambda>r. r = None)
                  [avr_init W, connect W, query_device_info W, query_zones W])))
       [PioneerAVR_init (l_host l) (l_port l) (l_timeout l) (l_scan_interval l) (l_params l),
        Connect, QueryDeviceInfo, QueryZones,
        if truthy s then SetSourceDict s else BuildSourceDict]"
  by (auto simp: init_calls_def run_calls_single split: option.splits)

lemma count_list_filter: "P y \<Longrightarrow> count_list (filter P xs) y = count_list xs y"
  by (induction xs) auto

lemma decode_sources_wellformed:
  "json_loads W s = Inr v \<Longrightarrow> decode_sources W (PyStr s) = (v, [])"
  by (simp add: decode_sources_def py_json_loads_def)

lemma setup_first_init_call:
  assumes "read_entry C entry = Inr l"
  shows "filter init_call (trace (async_setup_entry C W h entry)) =
           PioneerAVR_init (l_host l) (l_port l) (l_timeout l) (l_scan_interval l) (l_params l)
           # tl (filter init_call (trace (async_setup_entry C W h entry)))"
  using setup_init_trace[OF assms, of W h]
        run_init_calls_exact[of W l "fst (decode_sources W (l_sources_option l))"]
  by simp

lemma decode_sources_malformed:
  "json_loads W s = Inl x \<Longrightarrow>
     decode_sources W (PyStr s) = (PyDict [], [Log ERROR ''invalid sources specified: %s'' [PyStr s]])"
  by (simp add: decode_sources_def py_json_loads_def)

lemma init_calls_json_loads_update [simp]:
  "init_calls (W\<lparr>json_loads := f\<rparr>) l s = init_calls W l s"
  by (simp add: init_calls_def)

lemma register_calls_json_loads_update [simp]:
  "register_calls C (W\<lparr>json_loads := f\<rparr>) entry l = register_calls C W entry l"
  by (simp add: register_calls_def)

lemma count_log_run_init_calls:
  "run_calls (init_calls W l s) = (r, t) \<Longrightarrow> count_list t (Log a b c) = 0"
  using run_init_calls_events[of W l s r t "Log a b c"] by (auto simp: count_list_0_iff)

lemma count_log_forward_setup: "count_list (map (ForwardEntrySetup i) ps) (Log a b c) = 0"
  by (induction ps) auto

lemma count_log_register_calls: "count_list (register_calls C W entry l) (Log a b c) = 0"
  by (simp add: register_calls_def count_log_forward_setup)

lemma setup_falsy_no_set_source_dict:
  assumes "read_entry C entry = Inr l"
      and "fst (decode_sources W (l_sources_option l)) = src"
      and "\<not> truthy src"
  shows "SetSourceDict v \<notin> set (trace (async_setup_entry C W h entry))"
proof -
  have "SetSourceDict v \<notin> set (filter init_call (trace (async_setup_entry C W h entry)))"
    using setup_init_trace[OF assms(1), of W h] run_init_calls_exact[of W l src] assms(2,3)
    by (auto dest: in_set_takeD)
  then show ?thesis by simp
qed

section \<open>The options-update handler\<close>

text \<open>
  Claim C9. For every config entry X, the options-update handler emits exactly one
  signal, on the topic formed from the options-update topic and X's unique id, carrying
  X's options map; it returns nothing, leaves the host state as it was, and sends nothing
  on the topic of an entry with another unique id.
\<close>

theorem update_listener_one_signal:
  "trace (update_listener C h X) =
     [DispatcherSend (PIONEER_OPTIONS_UPDATE C @ ''-'' @ unique_id X) (options X)]
   \<and> state (update_listener C h X) = h
   \<and> result (update_listener C h X) = Inr ()
   \<and> (unique_id Y \<noteq> unique_id X \<longrightarrow>
        (\<forall>payload. DispatcherSend (update_topic C Y) payload
                     \<notin> set (trace (update_listener C h X))))"
  by (simp add: update_listener_def update_topic_def)

theorem update_listener_one_signal_witness:
  "trace (update_listener example_consts example_hass entry_with_sources) =
     [DispatcherSend ''pioneer_options_update-avr-1'' (options entry_with_sources)]
   \<and> state (update_listener example_consts example_hass entry_with_sources) = example_hass
   \<and> unique_id entry_plain \<noteq> unique_id entry_with_sources
   \<and> DispatcherSend (update_topic example_consts entry_plain) (options entry_with_sources)
        \<notin> set (trace (update_listener example_consts example_hass entry_with_sources))"
  using update_listener_one_signal[of example_consts example_hass entry_with_sources entry_plain]
  by (simp add: update_listener_def update_topic_def example_consts_def
        entry_with_sources_def entry_plain_def)

section \<open>Unload\<close>

text \<open>
  Claim C5. For every config entry with a stored client, unload invokes the shutdown of
  that client, once, whatever the platform unloads return: the statement holds for every
  world, so for every combination of succeeding and failing platforms.
\<close>

theorem unload_always_shuts_down:
  "stored_client C h entry = Some p \<Longrightarrow>
     count_list (trace (async_unload_entry C W h entry)) (Shutdown p) = 1"
  by (auto simp: async_unload_entry_def stored_client_def getitem_def bind_exn_def Let_def
        count_forward_unload_shutdown split: option.splits)

theorem unload_always_shuts_down_witness:
  "stored_client example_consts (hass_with entry_plain) entry_plain = Some client_plain
   \<and> \<not> list_all (forward_entry_unload world_unload_fails) (PLATFORMS example_consts)
   \<and> count_list (trace (async_unload_entry example_consts world_unload_fails
                          (hass_with entry_plain) entry_plain))
        (Shutdown client_plain) = 1"
proof -
  have s: "stored_client example_consts (hass_with entry_plain) entry_plain = Some client_plain"
    by (simp add: model_defs example_defs)
  have f: "\<not> list_all (forward_entry_unload world_unload_fails) (PLATFORMS example_consts)"
    by (simp add: example_defs world_defs)
  show ?thesis
    using s f unload_always_shuts_down[OF s, of world_unload_fails] by simp
qed

text \<open>
  Claim C4, as the code has it. For every config entry with a stored client: when the
  client's shutdown returns, unload returns the conjunction of the platform unload
  results, the client is no longer stored for the entry if and only if every platform
  unload succeeded, and the host state is untouched when one failed; when the shutdown
  raises, that exception leaves unload and the host state is untouched.
\<close>

theorem unload_removes_when_all_unloaded:
  assumes "stored_client C h entry = Some p"
  shows "(shutdown W = None \<longrightarrow>
            result (async_unload_entry C W h entry)
              = Inr (list_all (forward_entry_unload W) (PLATFORMS C))
          \<and> (stored_client C (state (async_unload_entry C W h entry)) entry = None
               \<longleftrightarrow> list_all (forward_entry_unload W) (PLATFORMS C))
          \<and> (\<not> list_all (forward_entry_unload W) (PLATFORMS C)
               \<longrightarrow> state (async_unload_entry C W h entry) = h))
       \<and> (\<forall>e. shutdown W = Some e \<longrightarrow>
            result (async_unload_entry C W h entry) = Inl e
          \<and> state (async_unload_entry C W h entry) = h)"
proof -
  obtain clients where c: "map_of (hass_data h) (DOMAIN C) = Some clients"
    and p: "map_of clients (entry_id entry) = Some p"
    using assms by (auto simp: stored_client_def split: option.splits)
  have g: "bind_exn (getitem (hass_data h) (DOMAIN C))
             (\<lambda>clients. bind_exn (getitem clients (entry_id entry))
                (\<lambda>pioneer. Inr (clients, pioneer))) = Inr (clients, p)"
    using c p by (simp add: getitem_def bind_exn_def)
  show ?thesis
    using g assms stored_client_after_pop[OF c, of C entry]
    by (cases "shutdown W") (auto simp: async_unload_entry_def Let_def)
qed

theorem unload_removes_when_all_unloaded_witness:
  "stored_client example_consts (hass_with entry_plain) entry_plain = Some client_plain
   \<and> shutdown example_world = None
   \<and> result (async_unload_entry example_consts example_world (hass_with entry_plain) entry_plain)
       = Inr True
   \<and> stored_client example_consts
        (state (async_unload_entry example_consts example_world (hass_with entry_plain) entry_plain))
        entry_plain = None
   \<and> shutdown world_unload_fails = None
   \<and> result (async_unload_entry example_consts world_unload_fails (hass_with entry_plain) entry_plain)
       = Inr False
   \<and> state (async_unload_entry example_consts world_unload_fails (hass_with entry_plain) entry_plain)
       = hass_with entry_plain"
proof -
  have s: "stored_client example_consts (hass_with entry_plain) entry_plain = Some client_plain"
    by (simp add: model_defs example_defs)
  have a: "shutdown example_world = None
           \<and> list_all (forward_entry_unload example_world) (PLATFORMS example_consts)"
    by (simp add: example_defs)
  have b: "shutdown world_unload_fails = None
           \<and> \<not> list_all (forward_entry_unload world_unload_fails) (PLATFORMS example_consts)"
    by (simp add: example_defs world_defs)
  show ?thesis
    using s a b
      unload_removes_when_all_unloaded[OF s, of example_world]
      unload_removes_when_all_unloaded[OF s, of world_unload_fails]
    by simp
qed

text \<open>
  The claim without the condition on the shutdown fails: every platform unload succeeds,
  the shutdown raises, and the client is still stored.
\<close>

theorem unload_shutdown_raises_counterexample:
  "stored_client example_consts (hass_with entry_plain) entry_plain = Some client_plain
   \<and> list_all (forward_entry_unload world_shutdown_raises) (PLATFORMS example_consts)
   \<and> result (async_unload_entry example_consts world_shutdown_raises
                (hass_with entry_plain) entry_plain) = Inl (OtherException ''OSError'')
   \<and> stored_client example_consts
        (state (async_unload_entry example_consts world_shutdown_raises
                  (hass_with entry_plain) entry_plain)) entry_plain = Some client_plain"
  by (simp add: model_defs example_defs world_defs)

section \<open>Setup\<close>

text \<open>
  Claim C10. For every config entry, if setup fails with the "not ready" condition, the
  host state is the one before the call, so the clients stored per entry are unchanged,
  and none of the calls that register the device, forward the platform setups or add the
  update listener was made.
\<close>

theorem setup_not_ready_leaves_state:
  "result (async_setup_entry C W h entry) = Inl (ConfigEntryNotReady e) \<Longrightarrow>
     state (async_setup_entry C W h entry) = h
     \<and> stored_client C (state (async_setup_entry C W h entry)) entry = stored_client C h entry
     \<and> (\<forall>ev \<in> set (trace (async_setup_entry C W h entry)). \<not> publish_call ev)"
  by (auto simp: async_setup_entry_def Let_def getitem_def
        split: sum.splits prod.splits option.splits if_splits
        dest: run_init_calls_not_publish decode_sources_not_publish)

theorem setup_not_ready_leaves_state_witness:
  "result (async_setup_entry example_consts world_connect_timeout example_hass entry_plain)
     = Inl (ConfigEntryNotReady TimeoutError)
   \<and> state (async_setup_entry example_consts world_connect_timeout example_hass entry_plain)
     = example_hass
   \<and> stored_client example_consts
        (state (async_setup_entry example_consts world_connect_timeout example_hass entry_plain))
        entry_plain = None
   \<and> list_all (\<lambda>ev. \<not> publish_call ev)
        (trace (async_setup_entry example_consts world_connect_timeout example_hass entry_plain))"
proof -
  have r: "result (async_setup_entry example_consts world_connect_timeout example_hass entry_plain)
     = Inl (ConfigEntryNotReady TimeoutError)"
    by (simp add: model_defs example_defs world_defs)
  have n: "stored_client example_consts example_hass entry_plain = None"
    by (simp add: model_defs example_defs)
  show ?thesis
    using r n setup_not_ready_leaves_state[OF r] by (simp add: list_all_iff)
qed

text \<open>
  Claim C3. For every config entry, if a device-initialization call (client construction,
  connect, query_device_info, query_zones, set_source_dict or build_source_dict) raises,
  which it can only do when the calls before it returned, then setup raises
  ConfigEntryNotReady from that exception when it is a timeout, value or attribute error,
  and raises the exception itself otherwise. The entry is one from which setup can read
  host, port, name, scan interval, timeout and sources, so that the calls are reached.
\<close>

theorem setup_init_failure:
  assumes "read_entry C entry = Inr l"
      and "sources = fst (decode_sources W (l_sources_option l))"
      and "avr_init W = Some e
         \<or> (avr_init W = None \<and> connect W = Some e)
         \<or> (avr_init W = None \<and> connect W = None \<and> query_device_info W = Some e)
         \<or> (avr_init W = None \<and> connect W = None \<and> query_device_info W = None
              \<and> query_zones W = Some e)
         \<or> (avr_init W = None \<and> connect W = None \<and> query_device_info W = None
              \<and> query_zones W = None
              \<and> (if truthy sources then set_source_dict W else build_source_dict W) = Some e)"
  shows "result (async_setup_entry C W h entry) =
           Inl (if e \<in> {TimeoutError, ValueError, AttributeError}
                then ConfigEntryNotReady e else e)"
proof -
  have c: "caught_not_ready e \<longleftrightarrow> e \<in> {TimeoutError, ValueError, AttributeError}"
    by (cases e) auto
  obtain t1 where d: "decode_sources W (l_sources_option l) = (sources, t1)"
    using assms(2) by (cases "decode_sources W (l_sources_option l)") auto
  have "\<exists>t2. run_calls (init_calls W l sources) = (Some e, t2)"
    using assms(3) by (auto simp: init_calls_def split: if_splits)
  then obtain t2 where r: "run_calls (init_calls W l sources) = (Some e, t2)" ..
  show ?thesis
    using assms(1) d r c by (simp add: async_setup_entry_def Let_def)
qed

theorem setup_init_failure_witness:
  "result (async_setup_entry example_consts world_connect_timeout example_hass entry_with_sources)
     = Inl (ConfigEntryNotReady TimeoutError)
   \<and> result (async_setup_entry example_consts world_connect_oserror example_hass entry_with_sources)
     = Inl (OtherException ''OSError'')"
proof -
  have r: "read_entry example_consts entry_with_sources = Inr locals_with_sources"
    by (simp add: model_defs example_defs)
  have a: "avr_init world_connect_timeout = None
           \<and> connect world_connect_timeout = Some TimeoutError"
    by (simp add: world_defs example_defs)
  have b: "avr_init world_connect_oserror = None
           \<and> connect world_connect_oserror = Some (OtherException ''OSError'')"
    by (simp add: world_defs example_defs)
  show ?thesis
    using setup_init_failure[OF r refl, of world_connect_timeout TimeoutError example_hass]
          setup_init_failure[OF r refl, of world_connect_oserror "OtherException ''OSError''"
            example_hass]
          a b
    by simp
qed

text \<open>
  Claim C7, as the code has it. For every config entry from which setup can read its
  settings, the calls made on the device client are, in this order, the construction of
  the client, connect, query_device_info, query_zones and then one of set_source_dict
  (with the decoded sources) and build_source_dict, up to and including the first call
  that raises. When none of the first four raises, all five are made, with exactly one of
  set_source_dict and build_source_dict.
\<close>

theorem init_calls_in_order:
  assumes "read_entry C entry = Inr l"
      and "sources = fst (decode_sources W (l_sources_option l))"
  shows "filter init_call (trace (async_setup_entry C W h entry)) =
           take (Suc (length (takeWhile (\<lambda>r. r = None)
                        [avr_init W, connect W, query_device_info W, query_zones W])))
             [PioneerAVR_init (l_host l) (l_port l) (l_timeout l) (l_scan_interval l) (l_params l),
              Connect, QueryDeviceInfo, QueryZones,
              if truthy sources then SetSourceDict sources else BuildSourceDict]
       \<and> (avr_init W = None \<and> connect W = None \<and> query_device_info W = None
            \<and> query_zones W = None \<longrightarrow>
          filter init_call (trace (async_setup_entry C W h entry)) =
             [PioneerAVR_init (l_host l) (l_port l) (l_timeout l) (l_scan_interval l) (l_params l),
              Connect, QueryDeviceInfo, QueryZones,
              if truthy sources then SetSourceDict sources else BuildSourceDict])"
  using setup_init_trace[OF assms(1), of W h] assms(2) run_init_calls_exact[of W l sources]
  by auto

theorem init_calls_in_order_witness:
  "filter init_call (trace (async_setup_entry example_consts example_world example_hass
                               entry_with_sources)) =
     [PioneerAVR_init (PyStr ''avr.local'') (PyInt 8102) (PyInt 5) (PyInt 60)
        [(''command_delay'', PyInt 1)],
      Connect, QueryDeviceInfo, QueryZones, SetSourceDict (PyDict [(''CD'', PyStr ''01'')])]
   \<and> filter init_call (trace (async_setup_entry example_consts example_world example_hass
                               entry_plain)) =
     [PioneerAVR_init (PyStr ''avr.local'') (PyInt 8102) (PyInt 2) (PyInt 60) [],
      Connect, QueryDeviceInfo, QueryZones, BuildSourceDict]"
proof -
  have r1: "read_entry example_consts entry_with_sources = Inr locals_with_sources"
    by (simp add: model_defs example_defs)
  have r2: "read_entry example_consts entry_plain = Inr locals_plain"
    by (simp add: model_defs example_defs)
  have d1: "fst (decode_sources example_world (l_sources_option locals_with_sources))
            = PyDict [(''CD'', PyStr ''01'')]"
    by (simp add: model_defs example_defs)
  have d2: "fst (decode_sources example_world (l_sources_option locals_plain)) = PyDict []"
    by (simp add: model_defs example_defs)
  have w: "avr_init example_world = None \<and> connect example_world = None
           \<and> query_device_info example_world = None \<and> query_zones example_world = None"
    by (simp add: example_defs)
  show ?thesis
    using init_calls_in_order[OF r1 refl, of example_world example_hass]
          init_calls_in_order[OF r2 refl, of example_world example_hass] d1 d2 w
    by (simp add: locals_with_sources_def locals_plain_def)
qed

text \<open>
  The claim without the stop at a raising call fails: when connect times out, the calls
  made are the construction and connect, and the sources are neither applied nor
  discovered.
\<close>

theorem init_calls_stop_counterexample:
  "filter init_call (trace (async_setup_entry example_consts world_connect_timeout example_hass
                               entry_with_sources)) =
     [PioneerAVR_init (PyStr ''avr.local'') (PyInt 8102) (PyInt 5) (PyInt 60)
        [(''command_delay'', PyInt 1)],
      Connect]"
  by (simp add: model_defs example_defs world_defs)

text \<open>
  Claim C6, as the code has it. For every config entry whose sources option is a string
  that decodes to the empty mapping, setup never calls set_source_dict, and it calls
  build_source_dict exactly once when the construction of the client, connect,
  query_device_info and query_zones return, and not at all when one of them raises.
\<close>

theorem empty_sources_auto_discovery:
  assumes "read_entry C entry = Inr l"
      and "l_sources_option l = PyStr s"
      and "json_loads W s = Inr (PyDict [])"
  shows "count_list (trace (async_setup_entry C W h entry)) BuildSourceDict =
           (if avr_init W = None \<and> connect W = None \<and> query_device_info W = None
               \<and> query_zones W = None then 1 else 0)
       \<and> (\<forall>v. SetSourceDict v \<notin> set (trace (async_setup_entry C W h entry)))"
proof -
  let ?t = "trace (async_setup_entry C W h entry)"
  have d: "fst (decode_sources W (l_sources_option l)) = PyDict []"
    using assms(2,3) by (simp add: decode_sources_wellformed)
  have f: "filter init_call ?t =
     take (Suc (length (takeWhile (\<lambda>r. r = None)
                  [avr_init W, connect W, query_device_info W, query_zones W])))
       [PioneerAVR_init (l_host l) (l_port l) (l_timeout l) (l_scan_interval l) (l_params l),
        Connect, QueryDeviceInfo, QueryZones, BuildSourceDict]"
    using setup_init_trace[OF assms(1), of W h] run_init_calls_exact[of W l "PyDict []"] d
    by simp
  have "count_list ?t BuildSourceDict = count_list (filter init_call ?t) BuildSourceDict"
    by (simp add: count_list_filter)
  then have c: "count_list ?t BuildSourceDict =
           (if avr_init W = None \<and> connect W = None \<and> query_device_info W = None
               \<and> query_zones W = None then 1 else 0)"
    unfolding f by auto
  have "SetSourceDict v \<notin> set (filter init_call ?t)" for v
    unfolding f by (auto dest: in_set_takeD)
  then have "SetSourceDict v \<notin> set ?t" for v
    by simp
  with c show ?thesis by blast
qed

theorem empty_sources_auto_discovery_witness:
  "json_loads example_world ''{}'' = Inr (PyDict [])
   \<and> count_list (trace (async_setup_entry example_consts example_world example_hass
                           entry_empty_sources)) BuildSourceDict = 1
   \<and> \<not> list_ex is_set_source_dict
         (trace (async_setup_entry example_consts example_world example_hass
                   entry_empty_sources))"
proof -
  have r: "read_entry example_consts entry_empty_sources = Inr locals_plain"
    by (simp add: model_defs example_defs)
  have o: "l_sources_option locals_plain = PyStr ''{}''"
    by (simp add: locals_plain_def)
  have j: "json_loads example_world ''{}'' = Inr (PyDict [])"
    by (simp add: example_defs)
  have w: "avr_init example_world = None \<and> connect example_world = None
           \<and> query_device_info example_world = None \<and> query_zones example_world = None"
    by (simp add: example_defs)
  have n: "\<not> list_ex is_set_source_dict
         (trace (async_setup_entry example_consts example_world example_hass
                   entry_empty_sources))"
    by (simp add: model_defs example_defs)
  show ?thesis
    using empty_sources_auto_discovery[OF r o j, of example_hass] j w n by simp
qed

text \<open>
  The claim without the condition on the earlier calls fails: the sources option is the
  empty object, connect times out, and build_source_dict is not called.
\<close>

theorem empty_sources_unreachable_counterexample:
  "map_of (options entry_empty_sources) (CONF_SOURCES example_consts) = Some (PyStr ''{}'')
   \<and> json_loads world_connect_timeout ''{}'' = Inr (PyDict [])
   \<and> count_list (trace (async_setup_entry example_consts world_connect_timeout example_hass
                           entry_empty_sources)) BuildSourceDict = 0"
  by (simp add: model_defs example_defs world_defs)

text \<open>
  Claim C1, as the code has it. For every config entry whose sources option is a
  well-formed JSON string that decodes to a value which Python takes as true (a non-empty
  mapping), setup never calls build_source_dict, calls set_source_dict with no other
  value than the decoded one, and calls it exactly once when the construction of the
  client, connect, query_device_info and query_zones return.
\<close>

theorem explicit_sources_applied:
  assumes "read_entry C entry = Inr l"
      and "l_sources_option l = PyStr s"
      and "json_loads W s = Inr v"
      and "truthy v"
  shows "BuildSourceDict \<notin> set (trace (async_setup_entry C W h entry))
       \<and> count_list (trace (async_setup_entry C W h entry)) (SetSourceDict v) =
           (if avr_init W = None \<and> connect W = None \<and> query_device_info W = None
               \<and> query_zones W = None then 1 else 0)
       \<and> (\<forall>v'. SetSourceDict v' \<in> set (trace (async_setup_entry C W h entry)) \<longrightarrow> v' = v)"
proof -
  let ?t = "trace (async_setup_entry C W h entry)"
  have d: "fst (decode_sources W (l_sources_option l)) = v"
    using assms(2,3) by (simp add: decode_sources_wellformed)
  have f: "filter init_call ?t =
     take (Suc (length (takeWhile (\<lambda>r. r = None)
                  [avr_init W, connect W, query_device_info W, query_zones W])))
       [PioneerAVR_init (l_host l) (l_port l) (l_timeout l) (l_scan_interval l) (l_params l),
        Connect, QueryDeviceInfo, QueryZones, SetSourceDict v]"
    using setup_init_trace[OF assms(1), of W h] run_init_calls_exact[of W l v] d assms(4)
    by simp
  have "count_list ?t (SetSourceDict v) = count_list (filter init_call ?t) (SetSourceDict v)"
    by (simp add: count_list_filter)
  then have c: "count_list ?t (SetSourceDict v) =
           (if avr_init W = None \<and> connect W = None \<and> query_device_info W = None
               \<and> query_zones W = None then 1 else 0)"
    unfolding f by auto
  have "BuildSourceDict \<notin> set (filter init_call ?t)"
    unfolding f by (auto dest: in_set_takeD)
  then have b: "BuildSourceDict \<notin> set ?t"
    by simp
  have "SetSourceDict v' \<in> set (filter init_call ?t) \<Longrightarrow> v' = v" for v'
    unfolding f by (auto dest: in_set_takeD)
  then have u: "SetSourceDict v' \<in> set ?t \<Longrightarrow> v' = v" for v'
    by simp
  from b c u show ?thesis by blast
qed

theorem explicit_sources_applied_witness:
  "json_loads example_world json_one_source = Inr (PyDict [(''CD'', PyStr ''01'')])
   \<and> BuildSourceDict \<notin> set (trace (async_setup_entry example_consts example_world
                                        example_hass entry_with_sources))
   \<and> count_list (trace (async_setup_entry example_consts example_world example_hass
                           entry_with_sources))
        (SetSourceDict (PyDict [(''CD'', PyStr ''01'')])) = 1"
proof -
  have r: "read_entry example_consts entry_with_sources = Inr locals_with_sources"
    by (simp add: model_defs example_defs)
  have o: "l_sources_option locals_with_sources = PyStr json_one_source"
    by (simp add: locals_with_sources_def)
  have j: "json_loads example_world json_one_source = Inr (PyDict [(''CD'', PyStr ''01'')])"
    by (simp add: example_defs)
  have t: "truthy (PyDict [(''CD'', PyStr ''01'')])"
    by simp
  have w: "avr_init example_world = None \<and> connect example_world = None
           \<and> query_device_info example_world = None \<and> query_zones example_world = None"
    by (simp add: example_defs)
  show ?thesis
    using explicit_sources_applied[OF r o j t, of example_hass] j w by simp
qed

text \<open>
  The claim for every well-formed JSON string fails: the empty object is well-formed,
  and setup discovers the sources with build_source_dict and does not call
  set_source_dict. Nor is a non-empty mapping applied in every run: when connect times
  out, set_source_dict is not called.
\<close>

theorem wellformed_empty_sources_counterexample:
  "map_of (options entry_empty_sources) (CONF_SOURCES example_consts) = Some (PyStr ''{}'')
   \<and> json_loads example_world ''{}'' = Inr (PyDict [])
   \<and> result (async_setup_entry example_consts example_world example_hass entry_empty_sources)
       = Inr True
   \<and> filter init_call (trace (async_setup_entry example_consts example_world example_hass
                                 entry_empty_sources)) =
       [PioneerAVR_init (PyStr ''avr.local'') (PyInt 8102) (PyInt 2) (PyInt 60) [],
        Connect, QueryDeviceInfo, QueryZones, BuildSourceDict]
   \<and> json_loads world_connect_timeout json_one_source = Inr (PyDict [(''CD'', PyStr ''01'')])
   \<and> \<not> list_ex is_set_source_dict
         (trace (async_setup_entry example_consts world_connect_timeout example_hass
                   entry_with_sources))"
  by (simp add: model_defs example_defs world_defs)

text \<open>
  Claim C8. For every config entry (its options a dictionary, so with no key twice) from
  which setup can read its settings: the options setup uses are the defaults overridden by
  the entry's options, key by key; the scan interval, the timeout and the sources string
  that setup uses are the values of these merged options; the first call on the device
  client is the construction of the client with that timeout and scan interval; and the
  params it is given hold, for each key, the entry's option when the key is a recognized
  protocol parameter and nothing otherwise.
\<close>

theorem setup_options_and_params:
  assumes "distinct (map fst (options entry))"
      and "read_entry C entry = Inr l"
  shows "(\<forall>k. map_of (merged_options C entry) k =
              (case map_of (options entry) k of
                 Some v \<Rightarrow> Some v
               | None \<Rightarrow> map_of (OPTIONS_DEFAULTS C) k))
       \<and> map_of (merged_options C entry) CONF_SCAN_INTERVAL = Some (l_scan_interval l)
       \<and> map_of (merged_options C entry) CONF_TIMEOUT = Some (l_timeout l)
       \<and> map_of (merged_options C entry) (CONF_SOURCES C) = Some (l_sources_option l)
       \<and> hd (filter init_call (trace (async_setup_entry C W h entry))) =
           PioneerAVR_init (l_host l) (l_port l) (l_timeout l) (l_scan_interval l) (l_params l)
       \<and> (\<forall>k. map_of (l_params l) k =
              (if k \<in> set (PARAMS_ALL C) then map_of (options entry) k else None))"
proof -
  have m: "map_of (merged_options C entry) k =
              (case map_of (options entry) k of
                 Some v \<Rightarrow> Some v
               | None \<Rightarrow> map_of (OPTIONS_DEFAULTS C) k)" for k
    using map_of_merged_options[OF assms(1), of C]
    by (simp add: map_add_def split: option.splits)
  have p: "map_of (l_params l) k =
              (if k \<in> set (PARAMS_ALL C) then map_of (options entry) k else None)" for k
    using read_entry_Inr(7)[OF assms(2)]
    by (simp add: map_of_params_of restrict_map_def)
  have c: "hd (filter init_call (trace (async_setup_entry C W h entry))) =
           PioneerAVR_init (l_host l) (l_port l) (l_timeout l) (l_scan_interval l) (l_params l)"
    using setup_first_init_call[OF assms(2), of W h] by (metis list.sel(1))
  show ?thesis
    using m p c read_entry_Inr(4,5,6)[OF assms(2)] by blast
qed

theorem setup_options_and_params_witness:
  "distinct (map fst (options entry_with_sources))
   \<and> map_of (merged_options example_consts entry_with_sources) CONF_SCAN_INTERVAL
       = Some (PyInt 60)
   \<and> map_of (merged_options example_consts entry_with_sources) CONF_TIMEOUT = Some (PyInt 5)
   \<and> map_of (merged_options example_consts entry_with_sources) (CONF_SOURCES example_consts)
       = Some (PyStr json_one_source)
   \<and> hd (filter init_call (trace (async_setup_entry example_consts example_world example_hass
                                     entry_with_sources))) =
       PioneerAVR_init (PyStr ''avr.local'') (PyInt 8102) (PyInt 5) (PyInt 60)
         [(''command_delay'', PyInt 1)]"
proof -
  have d: "distinct (map fst (options entry_with_sources))"
    by (simp add: entry_with_sources_def)
  have r: "read_entry example_consts entry_with_sources = Inr locals_with_sources"
    by (simp add: model_defs example_defs)
  have sel: "l_host locals_with_sources = PyStr ''avr.local''"
    "l_port locals_with_sources = PyInt 8102"
    "l_timeout locals_with_sources = PyInt 5"
    "l_scan_interval locals_with_sources = PyInt 60"
    "l_sources_option locals_with_sources = PyStr json_one_source"
    "l_params locals_with_sources = [(''command_delay'', PyInt 1)]"
    by (simp_all add: locals_with_sources_def)
  show ?thesis
    using d setup_options_and_params[OF d r, of example_world example_hass]
    unfolding sel by blast
qed

text \<open>
  Claim C2, as the code has it. For every config entry whose sources option is a
  malformed JSON string, the failure of the decoder does not leave setup: setup logs the
  error once, falls back to the empty source mapping and continues, so that it ends with
  the result and the host state of the same setup in a world where that string decodes to
  the empty mapping, with the same calls and the error log after the first of them; it
  never calls set_source_dict. When the calls on the device client return (with
  build_source_dict, called once) and the domain's dictionary exists, setup returns True.
\<close>

theorem malformed_sources_fall_back:
  assumes "read_entry C entry = Inr l"
      and "l_sources_option l = PyStr s"
      and "json_loads W s = Inl x"
      and "W0 = W\<lparr>json_loads := (json_loads W)(s := Inr (PyDict []))\<rparr>"
  shows "count_list (trace (async_setup_entry C W h entry))
           (Log ERROR ''invalid sources specified: %s'' [PyStr s]) = 1
       \<and> result (async_setup_entry C W h entry) = result (async_setup_entry C W0 h entry)
       \<and> state (async_setup_entry C W h entry) = state (async_setup_entry C W0 h entry)
       \<and> trace (async_setup_entry C W h entry) =
           hd (trace (async_setup_entry C W0 h entry))
           # Log ERROR ''invalid sources specified: %s'' [PyStr s]
           # tl (trace (async_setup_entry C W0 h entry))
       \<and> (\<forall>v. SetSourceDict v \<notin> set (trace (async_setup_entry C W h entry)))
       \<and> (avr_init W = None \<and> connect W = None \<and> query_device_info W = None
            \<and> query_zones W = None \<and> build_source_dict W = None
            \<and> map_of (hass_data h) (DOMAIN C) \<noteq> None \<longrightarrow>
          result (async_setup_entry C W h entry) = Inr True
          \<and> count_list (trace (async_setup_entry C W h entry)) BuildSourceDict = 1)"
proof -
  let ?R = "async_setup_entry C W h entry" and ?Q = "async_setup_entry C W0 h entry"
  let ?log = "Log ERROR ''invalid sources specified: %s'' [PyStr s]"
  have d: "decode_sources W (l_sources_option l) = (PyDict [], [?log])"
    using assms(2,3) by (simp add: decode_sources_malformed)
  have j0: "json_loads W0 s = Inr (PyDict [])"
    using assms(4) by simp
  have d0: "decode_sources W0 (l_sources_option l) = (PyDict [], [])"
    using assms(2) j0 by (simp add: decode_sources_wellformed)
  obtain r t where c: "run_calls (init_calls W l (PyDict [])) = (r, t)"
    by (cases "run_calls (init_calls W l (PyDict []))")
  have c0: "run_calls (init_calls W0 l (PyDict [])) = (r, t)"
    using c assms(4) by simp
  have reg: "register_calls C W0 entry l = register_calls C W entry l"
    using assms(4) by simp
  have both: "result ?R = result ?Q \<and> state ?R = state ?Q
        \<and> trace ?R = hd (trace ?Q) # ?log # tl (trace ?Q)
        \<and> count_list (trace ?R) ?log = 1"
  proof (cases r)
    case (Some e)
    have "result ?R = result ?Q"
      using Some assms(1) d d0 c c0 by (simp add: async_setup_entry_def Let_def)
    moreover have "state ?R = state ?Q"
      using Some assms(1) d d0 c c0 by (simp add: async_setup_entry_def Let_def)
    moreover have "trace ?R = hd (trace ?Q) # ?log # tl (trace ?Q)"
      using Some assms(1) d d0 c c0 by (simp add: async_setup_entry_def Let_def)
    moreover have "count_list (trace ?R) ?log = 1"
      using Some assms(1) d c count_log_run_init_calls[OF c]
      by (simp add: async_setup_entry_def Let_def)
    ultimately show ?thesis by blast
  next
    case None
    show ?thesis
    proof (cases "getitem (hass_data h) (DOMAIN C)")
      case (Inl e)
      then show ?thesis
        using None assms(1) d d0 c c0 count_log_run_init_calls[OF c]
        by (simp add: async_setup_entry_def Let_def)
    next
      case (Inr clients)
      then show ?thesis
        using None assms(1) d d0 c c0 reg count_log_run_init_calls[OF c]
        by (simp add: async_setup_entry_def Let_def count_log_register_calls)
    qed
  qed
  then have res: "result ?R = result ?Q" and st: "state ?R = state ?Q"
    and tr: "trace ?R = hd (trace ?Q) # ?log # tl (trace ?Q)"
    and cnt: "count_list (trace ?R) ?log = 1"
    by blast+
  have nos: "\<forall>v. SetSourceDict v \<notin> set (trace ?R)"
    using setup_falsy_no_set_source_dict[OF assms(1), of W "PyDict []" _ h] d by simp
  have ok: "result ?R = Inr True \<and> count_list (trace ?R) BuildSourceDict = 1"
    if w: "avr_init W = None \<and> connect W = None \<and> query_device_info W = None
            \<and> query_zones W = None \<and> build_source_dict W = None
            \<and> map_of (hass_data h) (DOMAIN C) \<noteq> None"
  proof -
    have rc: "run_calls (init_calls W l (PyDict [])) =
          (None, [PioneerAVR_init (l_host l) (l_port l) (l_timeout l) (l_scan_interval l) (l_params l),
                  Connect, QueryDeviceInfo, QueryZones, BuildSourceDict])"
      using w by (simp add: init_calls_def)
    obtain clients where g: "getitem (hass_data h) (DOMAIN C) = Inr clients"
      using w by (auto simp: getitem_def)
    have "result ?R = Inr True"
      using assms(1) d rc g by (simp add: async_setup_entry_def Let_def)
    moreover have "count_list (trace ?R) BuildSourceDict = 1"
      using assms(1) d rc g
      by (simp add: async_setup_entry_def Let_def register_calls_def count_forward_setup_init)
    ultimately show ?thesis by simp
  qed
  from cnt res st tr nos ok show ?thesis by blast
qed

theorem malformed_sources_fall_back_witness:
  "json_loads example_world ''{'' = Inl ValueError
   \<and> result (async_setup_entry example_consts example_world example_hass entry_malformed)
       = Inr True
   \<and> count_list (trace (async_setup_entry example_consts example_world example_hass
                           entry_malformed))
        (Log ERROR ''invalid sources specified: %s'' [PyStr ''{'']) = 1
   \<and> count_list (trace (async_setup_entry example_consts example_world example_hass
                           entry_malformed)) BuildSourceDict = 1"
proof -
  have r: "read_entry example_consts entry_malformed = Inr locals_malformed"
    by (simp add: model_defs example_defs)
  have o: "l_sources_option locals_malformed = PyStr ''{''"
    by (simp add: locals_malformed_def)
  have j: "json_loads example_world ''{'' = Inl ValueError"
    by (simp add: example_defs)
  have w: "avr_init example_world = None \<and> connect example_world = None
           \<and> query_device_info example_world = None \<and> query_zones example_world = None
           \<and> build_source_dict example_world = None
           \<and> map_of (hass_data example_hass) (DOMAIN example_consts) \<noteq> None"
    by (simp add: model_defs example_defs)
  note t = malformed_sources_fall_back[OF r o j refl, of example_hass]
  from t have a: "count_list (trace (async_setup_entry example_consts example_world
                     example_hass entry_malformed))
        (Log ERROR ''invalid sources specified: %s'' [PyStr ''{'']) = 1"
    by blast
  from t w have b: "result (async_setup_entry example_consts example_world example_hass
                       entry_malformed) = Inr True
      \<and> count_list (trace (async_setup_entry example_consts example_world example_hass
                           entry_malformed)) BuildSourceDict = 1"
    by blast
  from j a b show ?thesis by blast
qed

text \<open>
  That setup does not raise at all fails: the sources option is malformed, connect
  times out, and setup raises the "not ready" condition.
\<close>

theorem malformed_sources_not_ready_counterexample:
  "map_of (options entry_malformed) (CONF_SOURCES example_consts) = Some (PyStr ''{'')
   \<and> json_loads world_connect_timeout ''{'' = Inl ValueError
   \<and> result (async_setup_entry example_consts world_connect_timeout example_hass
                entry_malformed) = Inl (ConfigEntryNotReady TimeoutError)"
  by (simp add: model_defs example_defs world_defs)

end
